theory Spec2Isabelle
  imports Main "HOL-Library.Word"
begin

unbundle bit_operations_syntax

section \<open>Data model of \<open>native/sim_unicorn.hpp\<close>\<close>

subsection \<open>Scalar types and constants\<close>

type_synonym address_t = "64 word"
type_synonym unicorn_reg_id_t = "64 word"
type_synonym vex_reg_offset_t = "64 word"
type_synonym vex_tmp_id_t = "64 word"
type_synonym size_t = "64 word"

text \<open>\<open>#define PAGE_SIZE 0x1000\<close> and \<open>#define PAGE_SHIFT 12\<close>.\<close>

definition PAGE_SIZE :: nat where
  "PAGE_SIZE = 0x1000"

definition PAGE_SHIFT :: nat where
  "PAGE_SHIFT = 12"

text \<open>\<open>static const uint32_t MAX_BB_SIZE = 800;\<close>\<close>

definition MAX_BB_SIZE :: "32 word" where
  "MAX_BB_SIZE = 800"

text \<open>\<open>enum taint: uint8_t\<close>\<close>

datatype taint_t = TAINT_NONE | TAINT_DIRTY | TAINT_SYMBOLIC

text \<open>The anonymous \<open>uint8_t\<close> enum behind \<open>taint_entity_enum_t\<close>, with its numeric values.\<close>

datatype taint_entity_enum_t =
  TAINT_ENTITY_REG | TAINT_ENTITY_TMP | TAINT_ENTITY_MEM | TAINT_ENTITY_NONE

fun taint_entity_enum_val :: "taint_entity_enum_t \<Rightarrow> 64 word" where
  "taint_entity_enum_val TAINT_ENTITY_REG = 0"
| "taint_entity_enum_val TAINT_ENTITY_TMP = 1"
| "taint_entity_enum_val TAINT_ENTITY_MEM = 2"
| "taint_entity_enum_val TAINT_ENTITY_NONE = 3"

subsection \<open>Taint entities\<close>

text \<open>
  \<open>struct taint_entity_t\<close>: all five fields are always present (the source explains why
  it is not a union), and \<open>mem_ref_entity_list\<close> is a vector of the same struct.
\<close>

datatype taint_entity_t =
  Taint_entity
    (entity_type: taint_entity_enum_t)
    (reg_offset: vex_reg_offset_t)
    (tmp_id: vex_tmp_id_t)
    (mem_ref_entity_list: "taint_entity_t list")
    (instr_addr: address_t)

text \<open>
  \<open>taint_entity_t::operator==\<close>. The last \<open>return\<close> compares the two vectors with
  \<open>std::vector\<close>'s \<open>operator==\<close>: equal sizes and element-wise \<open>operator==\<close> of
  \<open>taint_entity_t\<close>, which is \<open>taint_entity_vector_eq\<close>.
\<close>

fun taint_entity_eq :: "taint_entity_t \<Rightarrow> taint_entity_t \<Rightarrow> bool"
  and taint_entity_vector_eq :: "taint_entity_t list \<Rightarrow> taint_entity_t list \<Rightarrow> bool" where
  "taint_entity_eq (Taint_entity ty r t l i) (Taint_entity ty' r' t' l' i') =
     (if ty \<noteq> ty' then False
      else if ty = TAINT_ENTITY_REG then r = r'
      else if ty = TAINT_ENTITY_TMP then t = t'
      else taint_entity_vector_eq l l')"
| "taint_entity_vector_eq [] [] = True"
| "taint_entity_vector_eq (x # xs) (y # ys) = (taint_entity_eq x y \<and> taint_entity_vector_eq xs ys)"
| "taint_entity_vector_eq [] (y # ys) = False"
| "taint_entity_vector_eq (x # xs) [] = False"

text \<open>
  \<open>taint_entity_t::operator()\<close>, the hash that \<open>std::hash<taint_entity_t>\<close> forwards to.
  \<open>std::hash<uint64_t>\<close> belongs to the standard library and is implementation defined, so
  it is the parameter \<open>H\<close>; \<open>std::size_t\<close> is taken as 64 bits wide. The loop over
  \<open>mem_ref_entity_list\<close> is the \<open>foldl\<close>.
\<close>

fun taint_entity_hash :: "(64 word \<Rightarrow> size_t) \<Rightarrow> taint_entity_t \<Rightarrow> size_t" where
  "taint_entity_hash H (Taint_entity ty r t l i) =
     (if ty = TAINT_ENTITY_REG then H (taint_entity_enum_val ty) XOR H r
      else if ty = TAINT_ENTITY_TMP then H (taint_entity_enum_val ty) XOR H t
      else if ty = TAINT_ENTITY_MEM then
        foldl (\<lambda>taint_entity_hash' sub_entity. taint_entity_hash' XOR taint_entity_hash H sub_entity)
          (H (taint_entity_enum_val ty)) l
      else H (taint_entity_enum_val ty))"

subsection \<open>Instruction details\<close>

text \<open>\<open>struct memory_value_t\<close>; \<open>value\<close> is the array of \<open>MAX_MEM_ACCESS_SIZE\<close> bytes.\<close>

record memory_value_t =
  mv_address :: "64 word"
  mv_value :: "8 word list"
  mv_size :: "64 word"

text \<open>\<open>struct instr_details_t\<close>\<close>

record instr_details_t =
  id_instr_addr :: address_t
  has_memory_dep :: bool
  memory_value :: memory_value_t

text \<open>\<open>instr_details_t::operator<\<close>: the unsigned order of the two addresses.\<close>

definition instr_details_lt :: "instr_details_t \<Rightarrow> instr_details_t \<Rightarrow> bool" where
  "instr_details_lt a other_instr = (id_instr_addr a < id_instr_addr other_instr)"

text \<open>
  \<open>std::set<instr_details_t>\<close> orders its elements with \<open>std::less\<close>, that is with
  \<open>operator<\<close> above. A set is the list of its elements in iteration order, and
  \<open>std::set::insert\<close> walks to the first element that is not less than the new one: the
  new element goes before it when it is less than that element, and is dropped when neither
  is less than the other (the container treats them as the same key).
\<close>

fun instr_set_insert :: "instr_details_t \<Rightarrow> instr_details_t list \<Rightarrow> instr_details_t list" where
  "instr_set_insert x [] = [x]"
| "instr_set_insert x (y # ys) =
     (if instr_details_lt x y then x # y # ys
      else if instr_details_lt y x then y # instr_set_insert x ys
      else y # ys)"

text \<open>\<open>instr_slice_details_t\<close>: \<open>dependent_instrs\<close> is such a set.\<close>

record instr_slice_details_t =
  dependent_instrs :: "instr_details_t list"
  concrete_registers :: "vex_reg_offset_t set"

subsection \<open>Stop reasons\<close>

datatype stop_t =
  STOP_NORMAL
| STOP_STOPPOINT
| STOP_ERROR
| STOP_SYSCALL
| STOP_EXECNONE
| STOP_ZEROPAGE
| STOP_NOSTART
| STOP_SEGFAULT
| STOP_ZERO_DIV
| STOP_NODECODE
| STOP_HLT
| STOP_VEX_LIFT_FAILED
| STOP_SYMBOLIC_CONDITION
| STOP_SYMBOLIC_PC
| STOP_SYMBOLIC_READ_ADDR
| STOP_SYMBOLIC_READ_SYMBOLIC_TRACKING_DISABLED
| STOP_SYMBOLIC_WRITE_ADDR
| STOP_SYMBOLIC_BLOCK_EXIT_STMT
| STOP_MULTIPLE_MEMORY_READS
| STOP_UNSUPPORTED_STMT_PUTI
| STOP_UNSUPPORTED_STMT_STOREG
| STOP_UNSUPPORTED_STMT_LOADG
| STOP_UNSUPPORTED_STMT_CAS
| STOP_UNSUPPORTED_STMT_LLSC
| STOP_UNSUPPORTED_STMT_DIRTY
| STOP_UNSUPPORTED_STMT_UNKNOWN
| STOP_UNSUPPORTED_EXPR_GETI
| STOP_UNSUPPORTED_EXPR_UNKNOWN
| STOP_UNKNOWN_MEMORY_WRITE
| STOP_UNKNOWN_MEMORY_READ

subsection \<open>Instruction and block taint entries\<close>

text \<open>
  \<open>std::unordered_set<taint_entity_t>\<close> is the list of the elements it stores. Its
  \<open>operator==\<close> is the standard library's: the sizes agree and every element of the left
  set is found in the right one, where finding an element goes through the hash and
  \<open>taint_entity_t::operator==\<close>.
\<close>

type_synonym taint_entity_set = "taint_entity_t list"

definition unordered_set_eq :: "taint_entity_set \<Rightarrow> taint_entity_set \<Rightarrow> bool" where
  "unordered_set_eq A B =
     (length A = length B \<and> list_all (\<lambda>x. list_ex (\<lambda>y. taint_entity_eq x y) B) A)"

text \<open>
  \<open>taint_vector_t\<close>, a vector of pairs of a sink and the set of its sources. Vectors and
  pairs compare element-wise with the \<open>operator==\<close> of their components.
\<close>

type_synonym taint_vector_t = "(taint_entity_t \<times> taint_entity_set) list"

definition taint_vector_eq :: "taint_vector_t \<Rightarrow> taint_vector_t \<Rightarrow> bool" where
  "taint_vector_eq v w =
     list_all2 (\<lambda>p q. taint_entity_eq (fst p) (fst q) \<and> unordered_set_eq (snd p) (snd q)) v w"

text \<open>\<open>struct instruction_taint_entry_t\<close>\<close>

record instruction_taint_entry_t =
  taint_sink_src_map :: taint_vector_t
  dependencies_to_save :: taint_entity_set
  ite_cond_entity_list :: taint_entity_set
  modified_regs :: "(vex_reg_offset_t \<times> bool) list"
  has_memory_read :: bool
  has_memory_write :: bool

text \<open>\<open>instruction_taint_entry_t::operator==\<close>\<close>

definition instruction_taint_entry_eq ::
  "instruction_taint_entry_t \<Rightarrow> instruction_taint_entry_t \<Rightarrow> bool" where
  "instruction_taint_entry_eq e other_instr_deps =
     (taint_vector_eq (taint_sink_src_map e) (taint_sink_src_map other_instr_deps) \<and>
      unordered_set_eq (dependencies_to_save e) (dependencies_to_save other_instr_deps) \<and>
      has_memory_read e = has_memory_read other_instr_deps \<and>
      has_memory_write e = has_memory_write other_instr_deps)"

text \<open>
  \<open>struct block_taint_entry_t\<close>. The \<open>std::map\<close> from instruction address to entry is the
  list of its pairs in iteration order; two maps are equal when they have the same size and
  equal pairs position by position, keys by \<open>==\<close> on addresses and values by
  \<open>instruction_taint_entry_t::operator==\<close>.
\<close>

type_synonym block_instrs_map = "(address_t \<times> instruction_taint_entry_t) list"

definition block_instrs_map_eq :: "block_instrs_map \<Rightarrow> block_instrs_map \<Rightarrow> bool" where
  "block_instrs_map_eq m n =
     list_all2 (\<lambda>p q. fst p = fst q \<and> instruction_taint_entry_eq (snd p) (snd q)) m n"

record block_taint_entry_t =
  block_instrs_taint_data_map :: block_instrs_map
  exit_stmt_guard_expr_deps :: taint_entity_set
  exit_stmt_instr_addr :: address_t
  has_unsupported_stmt_or_expr_type :: bool
  unsupported_stmt_stop_reason :: stop_t

text \<open>\<open>block_taint_entry_t::operator==\<close>\<close>

definition block_taint_entry_eq :: "block_taint_entry_t \<Rightarrow> block_taint_entry_t \<Rightarrow> bool" where
  "block_taint_entry_eq e other_entry =
     (block_instrs_map_eq (block_instrs_taint_data_map e) (block_instrs_taint_data_map other_entry) \<and>
      unordered_set_eq (exit_stmt_guard_expr_deps e) (exit_stmt_guard_expr_deps other_entry))"

subsection \<open>Shadow pages\<close>

text \<open>\<open>typedef taint_t PageBitmap[PAGE_SIZE]\<close>: an array of exactly \<open>PAGE_SIZE\<close> taint bytes.\<close>

typedef PageBitmap = "{bitmap :: taint_t list. length bitmap = PAGE_SIZE}"
  morphisms bitmap_entries Abs_PageBitmap
proof
  show "replicate PAGE_SIZE TAINT_NONE \<in> {bitmap :: taint_t list. length bitmap = PAGE_SIZE}"
    by simp
qed

text \<open>
  Modelled from the spec: \<open>State::page_lookup\<close> and \<open>State::page_activate\<close> are only
  declared in the header, so the page that holds a byte address follows the sentence
  "Pages are addressed by \<open>addr >> 12\<close>", with the shift amount \<open>PAGE_SHIFT\<close>.
\<close>

definition page_index :: "address_t \<Rightarrow> address_t" where
  "page_index addr = drop_bit PAGE_SHIFT addr"

subsection \<open>Block-size limit\<close>

datatype block_size_decision = ANALYZE_BLOCK | REENTER_AT_NEXT_INSTRUCTION

text \<open>
  Modelled from the spec: \<open>State::step\<close> and the block hook are only declared in the
  header, so the decision follows the sentence "the analyzer refuses IR blocks longer than
  800 bytes of guest code and the controller asks the engine to re-enter at the next
  instruction", with the limit \<open>MAX_BB_SIZE\<close> of the source.
\<close>

definition check_block_size :: "32 word \<Rightarrow> block_size_decision" where
  "check_block_size block_size =
     (if MAX_BB_SIZE < block_size then REENTER_AT_NEXT_INSTRUCTION else ANALYZE_BLOCK)"

subsection \<open>The controller state and its inline helpers\<close>

text \<open>
  \<open>uc_arch\<close> is unicorn's enumeration of architectures. \<open>uc_mode\<close> is a bit mask that the
  helpers only compare with \<open>UC_MODE_64\<close>.
\<close>

datatype uc_arch =
  UC_ARCH_ARM | UC_ARCH_ARM64 | UC_ARCH_MIPS | UC_ARCH_X86
| UC_ARCH_PPC | UC_ARCH_SPARC | UC_ARCH_M68K | UC_ARCH_MAX

type_synonym uc_mode = "32 word"


text \<open>The members of \<open>class State\<close> that the inline helpers below read.\<close>

record State =
  arch :: uc_arch
  mode :: uc_mode
  blacklisted_registers :: "vex_reg_offset_t set"
  artificial_vex_registers :: "vex_reg_offset_t set"

text \<open>\<open>std::unordered_set::count\<close>: the number of elements equal to the key, 0 or 1.\<close>

definition count :: "'a set \<Rightarrow> 'a \<Rightarrow> nat" where
  "count S x = (if x \<in> S then 1 else 0)"

text \<open>\<open>State::is_valid_dependency_register\<close>\<close>

definition is_valid_dependency_register :: "State \<Rightarrow> vex_reg_offset_t \<Rightarrow> bool" where
  "is_valid_dependency_register st r =
     (count (artificial_vex_registers st) r = 0 \<and>
      count (blacklisted_registers st) r = 0)"

text \<open>\<open>State::is_blacklisted_register\<close>\<close>

definition is_blacklisted_register :: "State \<Rightarrow> vex_reg_offset_t \<Rightarrow> bool" where
  "is_blacklisted_register st r = (count (blacklisted_registers st) r > 0)"

text \<open>
  \<open>std::unordered_set::emplace\<close>: the element is stored unless the set already holds one
  that is \<open>==\<close> to it.
\<close>

definition unordered_set_emplace :: "taint_entity_t \<Rightarrow> taint_entity_set \<Rightarrow> taint_entity_set" where
  "unordered_set_emplace x S = (if list_ex (\<lambda>y. taint_entity_eq y x) S then S else S @ [x])"

text \<open>
  Modelled from the spec: the register leaves that a taint source consumes "directly or
  through the address of a memory reference". A Reg entity is its own leaf, a Mem entity
  contributes the leaves of its address-computing entities, and temps and None contribute
  none. No function of the header computes this.
\<close>

fun register_leaves :: "taint_entity_t \<Rightarrow> taint_entity_t list" where
  "register_leaves (Taint_entity ty r t l i) =
     (if ty = TAINT_ENTITY_REG then [Taint_entity ty r t l i]
      else if ty = TAINT_ENTITY_MEM then concat (map register_leaves l)
      else [])"

text \<open>
  Modelled from the spec: \<open>State::compute_dependencies_to_save\<close> is only declared in the
  header. Its result is "the set of register entities whose concrete value must be
  captured": the register leaves of the taint sources, where "artificial IR registers never
  qualify as dependencies" and "blacklisted registers are never saved as concrete
  dependencies even if read", which is the test \<open>is_valid_dependency_register\<close> of the
  header. The second component of the declared result pair is not described by the spec
  and is left out.
\<close>

definition compute_dependencies_to_save :: "State \<Rightarrow> taint_entity_set \<Rightarrow> taint_entity_set" where
  "compute_dependencies_to_save st taint_sources =
     fold unordered_set_emplace
       (filter (\<lambda>e. is_valid_dependency_register st (reg_offset e))
          (concat (map register_leaves taint_sources))) []"



section \<open>Equality and hashing of taint entities\<close>

lemma taint_entity_vector_eq_list_all2:
  "taint_entity_vector_eq xs ys = list_all2 taint_entity_eq xs ys"
  by (induction xs arbitrary: ys) (case_tac ys; simp)+

lemma taint_entity_eq_refl: "taint_entity_eq a a"
proof (induction a)
  case (Taint_entity ty r t l i)
  then have "list_all2 taint_entity_eq l l"
    by (simp add: list_all2_same)
  then show ?case
    by (simp add: taint_entity_vector_eq_list_all2)
qed

lemma taint_entity_eq_unfold:
  "taint_entity_eq a b \<longleftrightarrow>
     entity_type a = entity_type b \<and>
     (entity_type a = TAINT_ENTITY_REG \<longrightarrow> reg_offset a = reg_offset b) \<and>
     (entity_type a = TAINT_ENTITY_TMP \<longrightarrow> tmp_id a = tmp_id b) \<and>
     (entity_type a = TAINT_ENTITY_MEM \<or> entity_type a = TAINT_ENTITY_NONE \<longrightarrow>
        taint_entity_vector_eq (mem_ref_entity_list a) (mem_ref_entity_list b))"
  by (cases a; cases b; cases "entity_type a") auto

text \<open>
  C1, as stated: \<open>a == b\<close> iff the entity types agree and, for Reg, the register offsets,
  for Tmp, the temp ids, for Mem, the \<open>mem_ref_entity_list\<close>s are equal. The statement
  puts no condition on entities of type None, but \<open>operator==\<close> falls through to the
  comparison of \<open>mem_ref_entity_list\<close> for every type other than Reg and Tmp: two None
  entities with different lists are unequal although the stated condition holds.
\<close>

theorem taint_entity_eq_none_counterexample:
  "\<not> (taint_entity_eq
         (Taint_entity TAINT_ENTITY_NONE 0 0 [] 0)
         (Taint_entity TAINT_ENTITY_NONE 0 0 [Taint_entity TAINT_ENTITY_REG 16 0 [] 0] 0)
       \<longleftrightarrow>
       entity_type (Taint_entity TAINT_ENTITY_NONE 0 0 [] 0) =
         entity_type (Taint_entity TAINT_ENTITY_NONE 0 0 [Taint_entity TAINT_ENTITY_REG 16 0 [] 0] 0) \<and>
       (entity_type (Taint_entity TAINT_ENTITY_NONE 0 0 [] 0) = TAINT_ENTITY_REG \<longrightarrow>
          reg_offset (Taint_entity TAINT_ENTITY_NONE 0 0 [] 0) =
            reg_offset (Taint_entity TAINT_ENTITY_NONE 0 0 [Taint_entity TAINT_ENTITY_REG 16 0 [] 0] 0)) \<and>
       (entity_type (Taint_entity TAINT_ENTITY_NONE 0 0 [] 0) = TAINT_ENTITY_TMP \<longrightarrow>
          tmp_id (Taint_entity TAINT_ENTITY_NONE 0 0 [] 0) =
            tmp_id (Taint_entity TAINT_ENTITY_NONE 0 0 [Taint_entity TAINT_ENTITY_REG 16 0 [] 0] 0)) \<and>
       (entity_type (Taint_entity TAINT_ENTITY_NONE 0 0 [] 0) = TAINT_ENTITY_MEM \<longrightarrow>
          taint_entity_vector_eq
            (mem_ref_entity_list (Taint_entity TAINT_ENTITY_NONE 0 0 [] 0))
            (mem_ref_entity_list
               (Taint_entity TAINT_ENTITY_NONE 0 0 [Taint_entity TAINT_ENTITY_REG 16 0 [] 0] 0))))"
  by simp

text \<open>
  C1, amended: \<open>a == b\<close> holds iff the two entities have the same \<open>entity_type\<close> and,
  for Reg, equal \<open>reg_offset\<close>; for Tmp, equal \<open>tmp_id\<close>; for Mem and for None, equal
  \<open>mem_ref_entity_list\<close>, where two lists are equal when they have the same length and
  their elements are pairwise \<open>==\<close>. Two entities that differ only in \<open>instr_addr\<close> are
  equal.
\<close>

theorem taint_entity_eq_payload_only:
  "(taint_entity_eq a b \<longleftrightarrow>
      entity_type a = entity_type b \<and>
      (entity_type a = TAINT_ENTITY_REG \<longrightarrow> reg_offset a = reg_offset b) \<and>
      (entity_type a = TAINT_ENTITY_TMP \<longrightarrow> tmp_id a = tmp_id b) \<and>
      (entity_type a = TAINT_ENTITY_MEM \<or> entity_type a = TAINT_ENTITY_NONE \<longrightarrow>
         list_all2 taint_entity_eq (mem_ref_entity_list a) (mem_ref_entity_list b))) \<and>
   taint_entity_eq (Taint_entity ty r t l i) (Taint_entity ty r t l j)"
proof -
  have "taint_entity_eq (Taint_entity ty r t l i) (Taint_entity ty r t l j)"
    using taint_entity_eq_refl[of "Taint_entity ty r t l i"] by simp
  then show ?thesis
    using taint_entity_eq_unfold[of a b]
    by (simp only: taint_entity_vector_eq_list_all2)
qed

theorem taint_entity_eq_payload_only_witness:
  "taint_entity_eq
     (Taint_entity TAINT_ENTITY_MEM 0 0 [Taint_entity TAINT_ENTITY_REG 16 0 [] 1] 0x1000)
     (Taint_entity TAINT_ENTITY_MEM 0 0 [Taint_entity TAINT_ENTITY_REG 16 0 [] 2] 0x2000) \<and>
   \<not> taint_entity_eq
     (Taint_entity TAINT_ENTITY_REG 16 0 [] 0x1000)
     (Taint_entity TAINT_ENTITY_REG 24 0 [] 0x1000) \<and>
   taint_entity_eq
     (Taint_entity TAINT_ENTITY_TMP 0 7 [] 0x1000)
     (Taint_entity TAINT_ENTITY_TMP 0 7 [] 0x2000)"
  using
    taint_entity_eq_payload_only[where
      a = "Taint_entity TAINT_ENTITY_MEM 0 0 [Taint_entity TAINT_ENTITY_REG 16 0 [] 1] 0x1000" and
      b = "Taint_entity TAINT_ENTITY_MEM 0 0 [Taint_entity TAINT_ENTITY_REG 16 0 [] 2] 0x2000" and
      ty = TAINT_ENTITY_TMP and r = 0 and t = 7 and l = "[]" and i = "0x1000" and j = "0x2000"]
    taint_entity_eq_payload_only[where
      a = "Taint_entity TAINT_ENTITY_REG 16 0 [] 0x1000" and
      b = "Taint_entity TAINT_ENTITY_REG 24 0 [] 0x1000" and
      ty = TAINT_ENTITY_TMP and r = 0 and t = 7 and l = "[]" and i = "0x1000" and j = "0x2000"]
  by simp

lemma hash_fold_cong:
  "list_all2 (\<lambda>x y. f x = g y) xs ys \<Longrightarrow>
   foldl (\<lambda>acc s. acc XOR f s) (h::64 word) xs = foldl (\<lambda>acc s. acc XOR g s) h ys"
  by (induction xs ys arbitrary: h rule: list_all2_induct) simp_all

lemma taint_entity_hash_eq:
  "taint_entity_eq a b \<Longrightarrow> taint_entity_hash H a = taint_entity_hash H b"
proof (induction a arbitrary: b)
  case (Taint_entity ty r t l i)
  obtain ty' r' t' l' i' where b: "b = Taint_entity ty' r' t' l' i'" by (cases b)
  show ?case
  proof (cases "ty = TAINT_ENTITY_MEM")
    case True
    with Taint_entity.prems b have ty': "ty' = TAINT_ENTITY_MEM" and l: "list_all2 taint_entity_eq l l'"
      by (auto simp: taint_entity_vector_eq_list_all2 split: if_splits)
    from l Taint_entity.IH have "list_all2 (\<lambda>x y. taint_entity_hash H x = taint_entity_hash H y) l l'"
      by (auto simp: list_all2_conv_all_nth)
    then show ?thesis using True ty' b by (simp add: hash_fold_cong)
  next
    case False
    with Taint_entity.prems b show ?thesis
      by (auto split: if_splits)
  qed
qed

lemma taint_entity_hash_instr_addr:
  "taint_entity_hash H (Taint_entity ty r t l i) = taint_entity_hash H (Taint_entity ty r t l j)"
  by simp

lemma taint_entity_hash_mem:
  "taint_entity_hash H (Taint_entity TAINT_ENTITY_MEM r t l i) =
     foldl (XOR) (H 2) (map (taint_entity_hash H) l)"
  by (simp add: foldl_map)

text \<open>
  C3: the hash is consistent with equality, whatever \<open>std::hash<uint64_t>\<close> is: entities
  that are \<open>==\<close> have the same hash. The hash does not read \<open>instr_addr\<close>, and the hash
  of a Mem entity is the hash of its type tag combined by exclusive or with the hashes of
  the sub-entities, and with nothing else.
\<close>

theorem taint_entity_hash_consistent_with_eq:
  "(taint_entity_eq a b \<longrightarrow> taint_entity_hash H a = taint_entity_hash H b) \<and>
   taint_entity_hash H (Taint_entity ty r t l i) = taint_entity_hash H (Taint_entity ty r t l j) \<and>
   taint_entity_hash H (Taint_entity TAINT_ENTITY_MEM r t l i) =
     foldl (XOR) (H 2) (map (taint_entity_hash H) l)"
proof (intro conjI impI)
  show "taint_entity_hash H a = taint_entity_hash H b" if "taint_entity_eq a b"
    using that by (rule taint_entity_hash_eq)
  show "taint_entity_hash H (Taint_entity ty r t l i) = taint_entity_hash H (Taint_entity ty r t l j)"
    by (rule taint_entity_hash_instr_addr)
  show "taint_entity_hash H (Taint_entity TAINT_ENTITY_MEM r t l i) =
     foldl (XOR) (H 2) (map (taint_entity_hash H) l)"
    by (rule taint_entity_hash_mem)
qed

theorem taint_entity_hash_consistent_with_eq_witness:
  "taint_entity_eq
     (Taint_entity TAINT_ENTITY_MEM 0 0 [Taint_entity TAINT_ENTITY_REG 16 0 [] 1] 0x1000)
     (Taint_entity TAINT_ENTITY_MEM 5 6 [Taint_entity TAINT_ENTITY_REG 16 0 [] 2] 0x2000) \<and>
   taint_entity_hash (\<lambda>x. x)
       (Taint_entity TAINT_ENTITY_MEM 0 0 [Taint_entity TAINT_ENTITY_REG 16 0 [] 1] 0x1000) =
     taint_entity_hash (\<lambda>x. x)
       (Taint_entity TAINT_ENTITY_MEM 5 6 [Taint_entity TAINT_ENTITY_REG 16 0 [] 2] 0x2000)"
  using taint_entity_hash_consistent_with_eq[where
      a = "Taint_entity TAINT_ENTITY_MEM 0 0 [Taint_entity TAINT_ENTITY_REG 16 0 [] 1] 0x1000" and
      b = "Taint_entity TAINT_ENTITY_MEM 5 6 [Taint_entity TAINT_ENTITY_REG 16 0 [] 2] 0x2000" and
      H = "\<lambda>x. x"]
  by simp

section \<open>Equality of taint entries\<close>

lemma unordered_set_eq_refl: "unordered_set_eq A A"
  unfolding unordered_set_eq_def list_all_iff list_ex_iff
  using taint_entity_eq_refl by blast

lemma taint_vector_eq_refl: "taint_vector_eq v v"
  unfolding taint_vector_eq_def
  by (simp add: list_all2_same taint_entity_eq_refl unordered_set_eq_refl)

lemma instruction_taint_entry_eq_refl: "instruction_taint_entry_eq e e"
  unfolding instruction_taint_entry_eq_def
  by (simp add: taint_vector_eq_refl unordered_set_eq_refl)

lemma block_instrs_map_eq_refl: "block_instrs_map_eq m m"
  unfolding block_instrs_map_eq_def
  by (simp add: list_all2_same instruction_taint_entry_eq_refl)

text \<open>
  C9: \<open>instruction_taint_entry_t::operator==\<close> does not look at \<open>ite_cond_entity_list\<close>
  and \<open>modified_regs\<close>. Two entries with the same \<open>taint_sink_src_map\<close>,
  \<open>dependencies_to_save\<close>, \<open>has_memory_read\<close> and \<open>has_memory_write\<close> are \<open>==\<close>
  whatever the other two fields hold, and replacing those two fields on either side never
  changes the result of the comparison.
\<close>

theorem instruction_taint_entry_eq_ignores_ite_and_modified_regs:
  "(taint_sink_src_map a = taint_sink_src_map b \<and>
    dependencies_to_save a = dependencies_to_save b \<and>
    has_memory_read a = has_memory_read b \<and>
    has_memory_write a = has_memory_write b \<longrightarrow> instruction_taint_entry_eq a b) \<and>
   instruction_taint_entry_eq (a\<lparr>ite_cond_entity_list := ites, modified_regs := regs\<rparr>) b =
     instruction_taint_entry_eq a b \<and>
   instruction_taint_entry_eq a (b\<lparr>ite_cond_entity_list := ites, modified_regs := regs\<rparr>) =
     instruction_taint_entry_eq a b"
proof -
  have "instruction_taint_entry_eq a b"
    if "taint_sink_src_map a = taint_sink_src_map b"
      and "dependencies_to_save a = dependencies_to_save b"
      and "has_memory_read a = has_memory_read b"
      and "has_memory_write a = has_memory_write b"
    using that unfolding instruction_taint_entry_eq_def
    by (simp add: taint_vector_eq_refl unordered_set_eq_refl)
  then show ?thesis
    by (simp add: instruction_taint_entry_eq_def)
qed

theorem instruction_taint_entry_eq_ignores_ite_and_modified_regs_witness:
  "instruction_taint_entry_eq
     \<lparr>taint_sink_src_map =
        [(Taint_entity TAINT_ENTITY_REG 16 0 [] 0x1000, [Taint_entity TAINT_ENTITY_TMP 0 3 [] 0])],
      dependencies_to_save = [Taint_entity TAINT_ENTITY_REG 24 0 [] 0],
      ite_cond_entity_list = [],
      modified_regs = [],
      has_memory_read = True, has_memory_write = False\<rparr>
     \<lparr>taint_sink_src_map =
        [(Taint_entity TAINT_ENTITY_REG 16 0 [] 0x1000, [Taint_entity TAINT_ENTITY_TMP 0 3 [] 0])],
      dependencies_to_save = [Taint_entity TAINT_ENTITY_REG 24 0 [] 0],
      ite_cond_entity_list = [Taint_entity TAINT_ENTITY_TMP 0 5 [] 0],
      modified_regs = [(16, True)],
      has_memory_read = True, has_memory_write = False\<rparr>"
  using instruction_taint_entry_eq_ignores_ite_and_modified_regs[where
      a = "\<lparr>taint_sink_src_map =
        [(Taint_entity TAINT_ENTITY_REG 16 0 [] 0x1000, [Taint_entity TAINT_ENTITY_TMP 0 3 [] 0])],
      dependencies_to_save = [Taint_entity TAINT_ENTITY_REG 24 0 [] 0],
      ite_cond_entity_list = [],
      modified_regs = [],
      has_memory_read = True, has_memory_write = False\<rparr>" and
      b = "\<lparr>taint_sink_src_map =
        [(Taint_entity TAINT_ENTITY_REG 16 0 [] 0x1000, [Taint_entity TAINT_ENTITY_TMP 0 3 [] 0])],
      dependencies_to_save = [Taint_entity TAINT_ENTITY_REG 24 0 [] 0],
      ite_cond_entity_list = [Taint_entity TAINT_ENTITY_TMP 0 5 [] 0],
      modified_regs = [(16, True)],
      has_memory_read = True, has_memory_write = False\<rparr>"]
  by simp

text \<open>
  C2: \<open>block_taint_entry_t::operator==\<close> compares only \<open>block_instrs_taint_data_map\<close>
  and \<open>exit_stmt_guard_expr_deps\<close>. Two entries with the same map and the same guard
  dependencies are \<open>==\<close> whatever \<open>exit_stmt_instr_addr\<close>,
  \<open>has_unsupported_stmt_or_expr_type\<close> and \<open>unsupported_stmt_stop_reason\<close> hold, and
  replacing these three fields on either side never changes the result of the comparison.
\<close>

theorem block_taint_entry_eq_ignores_exit_addr_and_unsupported:
  "(block_instrs_taint_data_map a = block_instrs_taint_data_map b \<and>
    exit_stmt_guard_expr_deps a = exit_stmt_guard_expr_deps b \<longrightarrow> block_taint_entry_eq a b) \<and>
   block_taint_entry_eq
     (a\<lparr>exit_stmt_instr_addr := addr, has_unsupported_stmt_or_expr_type := unsupported,
        unsupported_stmt_stop_reason := reason\<rparr>) b = block_taint_entry_eq a b \<and>
   block_taint_entry_eq a
     (b\<lparr>exit_stmt_instr_addr := addr, has_unsupported_stmt_or_expr_type := unsupported,
        unsupported_stmt_stop_reason := reason\<rparr>) = block_taint_entry_eq a b"
proof -
  have "block_taint_entry_eq a b"
    if "block_instrs_taint_data_map a = block_instrs_taint_data_map b"
      and "exit_stmt_guard_expr_deps a = exit_stmt_guard_expr_deps b"
    using that unfolding block_taint_entry_eq_def
    by (simp add: block_instrs_map_eq_refl unordered_set_eq_refl)
  then show ?thesis
    by (simp add: block_taint_entry_eq_def)
qed

theorem block_taint_entry_eq_ignores_exit_addr_and_unsupported_witness:
  "block_taint_entry_eq
     \<lparr>block_instrs_taint_data_map =
        [(0x1000, \<lparr>taint_sink_src_map = [], dependencies_to_save = [], ite_cond_entity_list = [],
                    modified_regs = [], has_memory_read = False, has_memory_write = True\<rparr>)],
      exit_stmt_guard_expr_deps = [Taint_entity TAINT_ENTITY_TMP 0 3 [] 0],
      exit_stmt_instr_addr = 0x1004,
      has_unsupported_stmt_or_expr_type = False,
      unsupported_stmt_stop_reason = STOP_NORMAL\<rparr>
     \<lparr>block_instrs_taint_data_map =
        [(0x1000, \<lparr>taint_sink_src_map = [], dependencies_to_save = [], ite_cond_entity_list = [],
                    modified_regs = [], has_memory_read = False, has_memory_write = True\<rparr>)],
      exit_stmt_guard_expr_deps = [Taint_entity TAINT_ENTITY_TMP 0 3 [] 0],
      exit_stmt_instr_addr = 0x2008,
      has_unsupported_stmt_or_expr_type = True,
      unsupported_stmt_stop_reason = STOP_UNSUPPORTED_STMT_PUTI\<rparr>"
  using block_taint_entry_eq_ignores_exit_addr_and_unsupported[where
      a = "\<lparr>block_instrs_taint_data_map =
        [(0x1000, \<lparr>taint_sink_src_map = [], dependencies_to_save = [], ite_cond_entity_list = [],
                    modified_regs = [], has_memory_read = False, has_memory_write = True\<rparr>)],
      exit_stmt_guard_expr_deps = [Taint_entity TAINT_ENTITY_TMP 0 3 [] 0],
      exit_stmt_instr_addr = 0x1004,
      has_unsupported_stmt_or_expr_type = False,
      unsupported_stmt_stop_reason = STOP_NORMAL\<rparr>" and
      b = "\<lparr>block_instrs_taint_data_map =
        [(0x1000, \<lparr>taint_sink_src_map = [], dependencies_to_save = [], ite_cond_entity_list = [],
                    modified_regs = [], has_memory_read = False, has_memory_write = True\<rparr>)],
      exit_stmt_guard_expr_deps = [Taint_entity TAINT_ENTITY_TMP 0 3 [] 0],
      exit_stmt_instr_addr = 0x2008,
      has_unsupported_stmt_or_expr_type = True,
      unsupported_stmt_stop_reason = STOP_UNSUPPORTED_STMT_PUTI\<rparr>"]
  by simp

section \<open>Sets of instruction details\<close>

lemma instr_set_insert_addrs:
  "set (map id_instr_addr (instr_set_insert x s)) \<subseteq> insert (id_instr_addr x) (set (map id_instr_addr s))"
  by (induction s) (auto simp: instr_details_lt_def)

lemma instr_set_insert_sorted:
  "sorted_wrt (<) (map id_instr_addr s) \<Longrightarrow> sorted_wrt (<) (map id_instr_addr (instr_set_insert x s))"
proof (induction s)
  case Nil
  then show ?case by simp
next
  case (Cons y ys)
  show ?case
  proof (cases "instr_details_lt x y")
    case True
    with Cons.prems show ?thesis
      by (auto simp: instr_details_lt_def)
  next
    case False
    show ?thesis
    proof (cases "instr_details_lt y x")
      case True
      have "\<forall>a\<in>set (map id_instr_addr (instr_set_insert x ys)). id_instr_addr y < a"
        using instr_set_insert_addrs[of x ys] Cons.prems True
        by (auto simp: instr_details_lt_def)
      with Cons True False show ?thesis by simp
    next
      case False
      with \<open>\<not> instr_details_lt x y\<close> Cons.prems show ?thesis by simp
    qed
  qed
qed

lemma instr_set_fold_sorted:
  "sorted_wrt (<) (map id_instr_addr s) \<Longrightarrow>
   sorted_wrt (<) (map id_instr_addr (fold instr_set_insert xs s))"
  by (induction xs arbitrary: s) (simp_all add: instr_set_insert_sorted)

lemma instr_set_insert_present:
  "sorted_wrt (<) (map id_instr_addr s) \<Longrightarrow> id_instr_addr x \<in> id_instr_addr ` set s \<Longrightarrow>
   instr_set_insert x s = s"
proof (induction s)
  case Nil
  then show ?case by simp
next
  case (Cons y ys)
  then show ?case
    by (fastforce simp: instr_details_lt_def)
qed

text \<open>
  C10: \<open>a < b\<close> on \<open>instr_details_t\<close> holds iff \<open>a.instr_addr < b.instr_addr\<close>.
  Hence a \<open>std::set<instr_details_t>\<close>, built from the empty set by any sequence of
  insertions, holds at most one entry per instruction address, and inserting an entry whose
  address is already in the set leaves the set as it is, whatever \<open>has_memory_dep\<close> and
  \<open>memory_value\<close> the new entry carries.
\<close>

theorem instr_details_set_one_entry_per_addr:
  "(instr_details_lt a b \<longleftrightarrow> id_instr_addr a < id_instr_addr b) \<and>
   distinct (map id_instr_addr (fold instr_set_insert xs [])) \<and>
   (id_instr_addr x \<in> id_instr_addr ` set (fold instr_set_insert xs []) \<longrightarrow>
      instr_set_insert x (fold instr_set_insert xs []) = fold instr_set_insert xs [])"
proof -
  have s: "sorted_wrt (<) (map id_instr_addr (fold instr_set_insert xs []))"
    by (rule instr_set_fold_sorted) simp
  then have "distinct (map id_instr_addr (fold instr_set_insert xs []))"
    by (simp add: strict_sorted_iff)
  with s show ?thesis
    by (simp add: instr_details_lt_def instr_set_insert_present)
qed

theorem instr_details_set_one_entry_per_addr_witness:
  "fold instr_set_insert
     [\<lparr>id_instr_addr = 0x1004, has_memory_dep = False,
        memory_value = \<lparr>mv_address = 0, mv_value = [], mv_size = 0\<rparr>\<rparr>,
      \<lparr>id_instr_addr = 0x1000, has_memory_dep = False,
        memory_value = \<lparr>mv_address = 0, mv_value = [], mv_size = 0\<rparr>\<rparr>] [] =
     [\<lparr>id_instr_addr = 0x1000, has_memory_dep = False,
        memory_value = \<lparr>mv_address = 0, mv_value = [], mv_size = 0\<rparr>\<rparr>,
      \<lparr>id_instr_addr = 0x1004, has_memory_dep = False,
        memory_value = \<lparr>mv_address = 0, mv_value = [], mv_size = 0\<rparr>\<rparr>] \<and>
   instr_set_insert
     \<lparr>id_instr_addr = 0x1004, has_memory_dep = True,
       memory_value = \<lparr>mv_address = 0x8000, mv_value = [1, 2], mv_size = 2\<rparr>\<rparr>
     (fold instr_set_insert
       [\<lparr>id_instr_addr = 0x1004, has_memory_dep = False,
          memory_value = \<lparr>mv_address = 0, mv_value = [], mv_size = 0\<rparr>\<rparr>,
        \<lparr>id_instr_addr = 0x1000, has_memory_dep = False,
          memory_value = \<lparr>mv_address = 0, mv_value = [], mv_size = 0\<rparr>\<rparr>] []) =
     fold instr_set_insert
       [\<lparr>id_instr_addr = 0x1004, has_memory_dep = False,
          memory_value = \<lparr>mv_address = 0, mv_value = [], mv_size = 0\<rparr>\<rparr>,
        \<lparr>id_instr_addr = 0x1000, has_memory_dep = False,
          memory_value = \<lparr>mv_address = 0, mv_value = [], mv_size = 0\<rparr>\<rparr>] []"
  using instr_details_set_one_entry_per_addr[where
      x = "\<lparr>id_instr_addr = 0x1004, has_memory_dep = True,
       memory_value = \<lparr>mv_address = 0x8000, mv_value = [1, 2], mv_size = 2\<rparr>\<rparr>" and
      xs = "[\<lparr>id_instr_addr = 0x1004, has_memory_dep = False,
          memory_value = \<lparr>mv_address = 0, mv_value = [], mv_size = 0\<rparr>\<rparr>,
        \<lparr>id_instr_addr = 0x1000, has_memory_dep = False,
          memory_value = \<lparr>mv_address = 0, mv_value = [], mv_size = 0\<rparr>\<rparr>]"]
  by (simp add: instr_details_lt_def)

section \<open>Shadow pages and the block-size limit\<close>

text \<open>
  C5: shadow memory is page-granular. \<open>PAGE_SIZE\<close> is \<open>0x1000\<close> = 4096 =
  \<open>2 ^ PAGE_SHIFT\<close> with \<open>PAGE_SHIFT\<close> = 12, a \<open>PageBitmap\<close> has exactly 4096 taint
  entries, and the page of a byte address is the address shifted right by 12 bits, that is
  the address divided by 4096.
\<close>

theorem shadow_page_geometry:
  "PAGE_SIZE = 4096 \<and> PAGE_SHIFT = 12 \<and> PAGE_SIZE = 2 ^ PAGE_SHIFT \<and>
   length (bitmap_entries bitmap) = 4096 \<and>
   page_index addr = drop_bit 12 addr \<and>
   unat (page_index addr) = unat addr div 4096"
proof -
  have "length (bitmap_entries bitmap) = PAGE_SIZE"
    using bitmap_entries[of bitmap] by simp
  moreover have "unat (drop_bit 12 addr) = unat addr div 4096"
    by (simp add: drop_bit_eq_div unat_div)
  ultimately show ?thesis
    by (simp add: PAGE_SIZE_def PAGE_SHIFT_def page_index_def)
qed

theorem shadow_page_geometry_witness:
  "unat (page_index 0x8FFF) = 8 \<and> unat (page_index 0x9000) = 9"
proof -
  have "unat (page_index 0x8FFF) = unat (0x8FFF :: 64 word) div 4096"
    and "unat (page_index 0x9000) = unat (0x9000 :: 64 word) div 4096"
    using shadow_page_geometry[where addr = "0x8FFF"] shadow_page_geometry[where addr = "0x9000"]
    by blast+
  then show ?thesis by simp
qed

text \<open>
  C6: \<open>MAX_BB_SIZE\<close> is 800, the largest guest-code size of a block that is analysed: a
  block is refused, and the engine re-enters at the next instruction, exactly when it is
  longer than 800 bytes.
\<close>

theorem max_bb_size_limit:
  "MAX_BB_SIZE = 800 \<and>
   (check_block_size block_size = REENTER_AT_NEXT_INSTRUCTION \<longleftrightarrow> 800 < unat block_size) \<and>
   (check_block_size block_size = ANALYZE_BLOCK \<longleftrightarrow> unat block_size \<le> 800)"
  by (auto simp: MAX_BB_SIZE_def check_block_size_def word_less_nat_alt)

theorem max_bb_size_limit_witness:
  "check_block_size 801 = REENTER_AT_NEXT_INSTRUCTION \<and> check_block_size 800 = ANALYZE_BLOCK"
  using max_bb_size_limit[of 801, THEN conjunct2] max_bb_size_limit[of 800, THEN conjunct2]
  by simp

section \<open>Register helpers of the controller\<close>





lemma register_leaves_are_registers:
  "e \<in> set (register_leaves x) \<Longrightarrow> entity_type e = TAINT_ENTITY_REG"
proof (induction x arbitrary: e)
  case (Taint_entity ty r t l i)
  then show ?case
    by (auto split: if_splits)
qed

lemma set_fold_unordered_set_emplace:
  "set (fold unordered_set_emplace xs S) \<subseteq> set xs \<union> set S"
proof (induction xs arbitrary: S)
  case Nil
  then show ?case by simp
next
  case (Cons x xs)
  have "set (unordered_set_emplace x S) \<subseteq> insert x (set S)"
    by (auto simp: unordered_set_emplace_def)
  with Cons.IH[of "unordered_set_emplace x S"] show ?case
    by auto
qed

lemma fold_unordered_set_emplace_mono:
  "set S \<subseteq> set (fold unordered_set_emplace xs S)"
proof (induction xs arbitrary: S)
  case Nil
  then show ?case by simp
next
  case (Cons x xs)
  have "set S \<subseteq> set (unordered_set_emplace x S)"
    by (auto simp: unordered_set_emplace_def)
  with Cons.IH[of "unordered_set_emplace x S"] show ?case
    by auto
qed

lemma fold_unordered_set_emplace_holds:
  "x \<in> set xs \<Longrightarrow> \<exists>y\<in>set (fold unordered_set_emplace xs S). taint_entity_eq y x"
proof (induction xs arbitrary: S)
  case Nil
  then show ?case by simp
next
  case (Cons z zs)
  show ?case
  proof (cases "x = z")
    case True
    have "\<exists>y\<in>set (unordered_set_emplace z S). taint_entity_eq y z"
      by (auto simp: unordered_set_emplace_def list_ex_iff taint_entity_eq_refl)
    then show ?thesis
      using True fold_unordered_set_emplace_mono[of "unordered_set_emplace z S" zs]
      by auto
  next
    case False
    with Cons.prems have "x \<in> set zs" by simp
    from Cons.IH[OF this, of "unordered_set_emplace z S"] show ?thesis by simp
  qed
qed

lemma compute_dependencies_to_save_sound:
  assumes "e \<in> set (compute_dependencies_to_save st taint_sources)"
  shows "entity_type e = TAINT_ENTITY_REG \<and> is_valid_dependency_register st (reg_offset e)"
proof -
  from assms set_fold_unordered_set_emplace
  have "e \<in> set (filter (\<lambda>e. is_valid_dependency_register st (reg_offset e))
          (concat (map register_leaves taint_sources)))"
    unfolding compute_dependencies_to_save_def by fastforce
  then show ?thesis
    by (auto dest: register_leaves_are_registers)
qed

lemma compute_dependencies_to_save_complete:
  assumes "s \<in> set taint_sources" and "e \<in> set (register_leaves s)"
    and "is_valid_dependency_register st (reg_offset e)"
  shows "\<exists>d\<in>set (compute_dependencies_to_save st taint_sources). taint_entity_eq d e"
proof -
  from assms have "e \<in> set (filter (\<lambda>e. is_valid_dependency_register st (reg_offset e))
          (concat (map register_leaves taint_sources)))"
    by auto
  then show ?thesis
    unfolding compute_dependencies_to_save_def
    by (rule fold_unordered_set_emplace_holds)
qed

text \<open>
  C8: \<open>is_valid_dependency_register\<close> returns true exactly for the register offsets that
  are neither in \<open>artificial_vex_registers\<close> nor in \<open>blacklisted_registers\<close>. So the
  dependencies to save that are computed from any set of taint sources are register
  entities none of which is artificial or blacklisted, also when the register is only read
  through the address of a memory reference, while every other register that a source
  reads is kept.
\<close>

theorem dependencies_never_artificial_or_blacklisted:
  "(is_valid_dependency_register st r \<longleftrightarrow>
      r \<notin> artificial_vex_registers st \<and> r \<notin> blacklisted_registers st) \<and>
   (\<forall>e\<in>set (compute_dependencies_to_save st taint_sources).
      entity_type e = TAINT_ENTITY_REG \<and>
      reg_offset e \<notin> artificial_vex_registers st \<and>
      reg_offset e \<notin> blacklisted_registers st) \<and>
   (\<forall>s\<in>set taint_sources. \<forall>e\<in>set (register_leaves s).
      reg_offset e \<notin> artificial_vex_registers st \<and> reg_offset e \<notin> blacklisted_registers st \<longrightarrow>
      (\<exists>d\<in>set (compute_dependencies_to_save st taint_sources). taint_entity_eq d e))"
proof -
  have iff: "is_valid_dependency_register st x \<longleftrightarrow>
      x \<notin> artificial_vex_registers st \<and> x \<notin> blacklisted_registers st" for x
    by (simp add: is_valid_dependency_register_def count_def)
  show ?thesis
    using compute_dependencies_to_save_sound[of _ st taint_sources]
      compute_dependencies_to_save_complete[of _ taint_sources _ st]
    unfolding iff by blast
qed

theorem dependencies_never_artificial_or_blacklisted_witness:
  "compute_dependencies_to_save
     \<lparr>arch = UC_ARCH_X86, mode = 8, blacklisted_registers = {144}, artificial_vex_registers = {156}\<rparr>
     [Taint_entity TAINT_ENTITY_REG 16 0 [] 0x1000,
      Taint_entity TAINT_ENTITY_REG 144 0 [] 0x1000,
      Taint_entity TAINT_ENTITY_MEM 0 0
        [Taint_entity TAINT_ENTITY_REG 156 0 [] 0x1000, Taint_entity TAINT_ENTITY_REG 24 0 [] 0x1000,
         Taint_entity TAINT_ENTITY_TMP 0 3 [] 0x1000] 0x1000,
      Taint_entity TAINT_ENTITY_REG 16 0 [] 0x1004] =
     [Taint_entity TAINT_ENTITY_REG 16 0 [] 0x1000, Taint_entity TAINT_ENTITY_REG 24 0 [] 0x1000] \<and>
   \<not> is_valid_dependency_register
     \<lparr>arch = UC_ARCH_X86, mode = 8, blacklisted_registers = {144}, artificial_vex_registers = {156}\<rparr> 144 \<and>
   \<not> is_valid_dependency_register
     \<lparr>arch = UC_ARCH_X86, mode = 8, blacklisted_registers = {144}, artificial_vex_registers = {156}\<rparr> 156 \<and>
   is_valid_dependency_register
     \<lparr>arch = UC_ARCH_X86, mode = 8, blacklisted_registers = {144}, artificial_vex_registers = {156}\<rparr> 16"
proof -
  let ?st = "\<lparr>arch = UC_ARCH_X86, mode = 8, blacklisted_registers = {144},
               artificial_vex_registers = {156}\<rparr>"
  have "\<not> is_valid_dependency_register ?st 144" "\<not> is_valid_dependency_register ?st 156"
    "is_valid_dependency_register ?st 16" "is_valid_dependency_register ?st 24"
    using dependencies_never_artificial_or_blacklisted[of ?st 144 "[]"]
      dependencies_never_artificial_or_blacklisted[of ?st 156 "[]"]
      dependencies_never_artificial_or_blacklisted[of ?st 16 "[]"]
      dependencies_never_artificial_or_blacklisted[of ?st 24 "[]"]
    by simp_all
  then show ?thesis
    by (simp add: compute_dependencies_to_save_def unordered_set_emplace_def)
qed

end
